theory Spec2Isabelle
  imports Complex_Main "HOL-Library.Signed_Division"
begin

section \<open>Exceptions\<close>

text \<open>
  The examples throw \<^verbatim>\<open>std::invalid_argument\<close> and \<^verbatim>\<open>std::runtime_error\<close>, each carrying its
  \<^verbatim>\<open>what()\<close> message. A call that can throw yields \<open>Inl\<close> of the exception or \<open>Inr\<close> of the
  returned value.
\<close>

datatype exn = invalid_argument string | runtime_error string

section \<open>Amounts of type double\<close>

text \<open>
  The amounts of \<^verbatim>\<open>BankAccount\<close> are C++ \<^verbatim>\<open>double\<close>s. A \<^verbatim>\<open>double\<close> is a finite number,
  one of the two infinities, or NaN. The two zeros compare equal and the account never
  divides, so they are one value here, \<open>Finite 0\<close>.
\<close>

datatype double = Finite real | PosInf | NegInf | NaN

text \<open>
  The comparisons \<^verbatim>\<open><\<close>, \<^verbatim>\<open><=\<close> and \<^verbatim>\<open>>\<close>: every comparison with NaN is false.
\<close>

fun double_less :: "double \<Rightarrow> double \<Rightarrow> bool" where
  "double_less (Finite a) (Finite b) = (a < b)"
| "double_less (Finite a) PosInf = True"
| "double_less NegInf (Finite b) = True"
| "double_less NegInf PosInf = True"
| "double_less x y = False"

fun double_less_eq :: "double \<Rightarrow> double \<Rightarrow> bool" where
  "double_less_eq (Finite a) (Finite b) = (a \<le> b)"
| "double_less_eq (Finite a) PosInf = True"
| "double_less_eq NegInf (Finite b) = True"
| "double_less_eq NegInf PosInf = True"
| "double_less_eq NegInf NegInf = True"
| "double_less_eq PosInf PosInf = True"
| "double_less_eq x y = False"

definition double_greater :: "double \<Rightarrow> double \<Rightarrow> bool" where
  "double_greater x y = double_less y x"

text \<open>
  Addition and subtraction. The sum of two finite numbers is rounded to a \<^verbatim>\<open>double\<close>
  (possibly an infinity, on overflow); the rounding of the machine is the parameter \<open>rnd\<close>,
  which takes the exact sum to the \<^verbatim>\<open>double\<close> delivered. NaN propagates, and the sum of the
  two opposite infinities is NaN. Subtraction adds the negated operand.
\<close>

fun double_add :: "(real \<Rightarrow> double) \<Rightarrow> double \<Rightarrow> double \<Rightarrow> double" where
  "double_add rnd NaN y = NaN"
| "double_add rnd x NaN = NaN"
| "double_add rnd PosInf NegInf = NaN"
| "double_add rnd NegInf PosInf = NaN"
| "double_add rnd PosInf y = PosInf"
| "double_add rnd x PosInf = PosInf"
| "double_add rnd NegInf y = NegInf"
| "double_add rnd x NegInf = NegInf"
| "double_add rnd (Finite a) (Finite b) = rnd (a + b)"

fun double_neg :: "double \<Rightarrow> double" where
  "double_neg (Finite a) = Finite (- a)"
| "double_neg PosInf = NegInf"
| "double_neg NegInf = PosInf"
| "double_neg NaN = NaN"

definition double_sub :: "(real \<Rightarrow> double) \<Rightarrow> double \<Rightarrow> double \<Rightarrow> double" where
  "double_sub rnd x y = double_add rnd x (double_neg y)"

text \<open>A rounding that never takes a number that is not negative to a negative result.\<close>

definition sign_preserving :: "(real \<Rightarrow> double) \<Rightarrow> bool" where
  "sign_preserving rnd = (\<forall>x. 0 \<le> x \<longrightarrow> \<not> double_less (rnd x) (Finite 0))"

section \<open>BankAccount (basic/encapsulation\_new.hpp)\<close>

text \<open>
  The private fields of \<^verbatim>\<open>BasicConcepts::BankAccount\<close>. \<^verbatim>\<open>std::string::length\<close> counts bytes,
  as \<open>length\<close> does on a \<open>string\<close>. Console output is not part of the account and is left
  out here.
\<close>

record BankAccount =
  accountHolder :: string
  accountNumber :: string
  balance :: double
  pin :: string
  isActive :: bool

definition validatePin :: "BankAccount \<Rightarrow> string \<Rightarrow> bool" where
  "validatePin this inputPin = (pin this = inputPin)"

definition isAccountActive :: "BankAccount \<Rightarrow> bool" where
  "isAccountActive this = isActive this"

text \<open>The constructor: four checks in the source's order, then the five assignments.\<close>

definition new_BankAccount :: "string \<Rightarrow> string \<Rightarrow> string \<Rightarrow> double \<Rightarrow> exn + BankAccount" where
  "new_BankAccount holder accNum userPin initialBalance =
     (if holder = [] then Inl (invalid_argument ''Account holder name cannot be empty'')
      else if length accNum < 10 then
        Inl (invalid_argument ''Account number must be at least 10 digits'')
      else if length userPin \<noteq> 4 then Inl (invalid_argument ''PIN must be exactly 4 digits'')
      else if double_less initialBalance (Finite 0) then
        Inl (invalid_argument ''Initial balance cannot be negative'')
      else Inr \<lparr>accountHolder = holder, accountNumber = accNum, balance = initialBalance,
                pin = userPin, isActive = True\<rparr>)"

text \<open>
  Every method takes the object and returns the outcome of the call together with the
  object as the call leaves it, so that what a throwing call does to the fields is part of
  the model. \<^verbatim>\<open>getBalance\<close> is a \<^verbatim>\<open>const\<close> method. The two methods that compute take the
  rounding of the machine as their first argument.
\<close>

definition getBalance :: "BankAccount \<Rightarrow> string \<Rightarrow> (exn + double) \<times> BankAccount" where
  "getBalance this inputPin =
     (if \<not> isAccountActive this then (Inl (runtime_error ''Account is not active''), this)
      else if \<not> validatePin this inputPin then (Inl (runtime_error ''Invalid PIN''), this)
      else (Inr (balance this), this))"

definition deposit ::
  "(real \<Rightarrow> double) \<Rightarrow> BankAccount \<Rightarrow> double \<Rightarrow> string \<Rightarrow> (exn + unit) \<times> BankAccount" where
  "deposit rnd this amount inputPin =
     (if \<not> isAccountActive this then (Inl (runtime_error ''Account is not active''), this)
      else if \<not> validatePin this inputPin then (Inl (runtime_error ''Invalid PIN''), this)
      else if double_less_eq amount (Finite 0) then
        (Inl (invalid_argument ''Deposit amount must be positive''), this)
      else (Inr (), this\<lparr>balance := double_add rnd (balance this) amount\<rparr>))"

definition withdraw ::
  "(real \<Rightarrow> double) \<Rightarrow> BankAccount \<Rightarrow> double \<Rightarrow> string \<Rightarrow> (exn + bool) \<times> BankAccount" where
  "withdraw rnd this amount inputPin =
     (if \<not> isAccountActive this then (Inl (runtime_error ''Account is not active''), this)
      else if \<not> validatePin this inputPin then (Inl (runtime_error ''Invalid PIN''), this)
      else if double_less_eq amount (Finite 0) then
        (Inl (invalid_argument ''Withdrawal amount must be positive''), this)
      else if double_greater amount (balance this) then (Inr False, this)
      else (Inr True, this\<lparr>balance := double_sub rnd (balance this) amount\<rparr>))"

definition changePin :: "BankAccount \<Rightarrow> string \<Rightarrow> string \<Rightarrow> (exn + bool) \<times> BankAccount" where
  "changePin this oldPin newPin =
     (if \<not> validatePin this oldPin then (Inr False, this)
      else if length newPin \<noteq> 4 then (Inr False, this)
      else (Inr True, this\<lparr>pin := newPin\<rparr>))"

definition deactivateAccount :: "BankAccount \<Rightarrow> string \<Rightarrow> (exn + unit) \<times> BankAccount" where
  "deactivateAccount this inputPin =
     (if \<not> validatePin this inputPin then (Inl (runtime_error ''Invalid PIN''), this)
      else (Inr (), this\<lparr>isActive := False\<rparr>))"

definition activateAccount :: "BankAccount \<Rightarrow> string \<Rightarrow> (exn + unit) \<times> BankAccount" where
  "activateAccount this inputPin =
     (if \<not> validatePin this inputPin then (Inl (runtime_error ''Invalid PIN''), this)
      else (Inr (), this\<lparr>isActive := True\<rparr>))"

text \<open>
  A call of one public method, and the object after a sequence of such calls. A caller that
  catches the exception goes on with the object as the throwing call left it.
\<close>

datatype account_call =
    GetBalance string
  | Deposit double string
  | Withdraw double string
  | ChangePin string string
  | DeactivateAccount string
  | ActivateAccount string

fun after_call :: "(real \<Rightarrow> double) \<Rightarrow> BankAccount \<Rightarrow> account_call \<Rightarrow> BankAccount" where
  "after_call rnd this (GetBalance p) = snd (getBalance this p)"
| "after_call rnd this (Deposit amount p) = snd (deposit rnd this amount p)"
| "after_call rnd this (Withdraw amount p) = snd (withdraw rnd this amount p)"
| "after_call rnd this (ChangePin p q) = snd (changePin this p q)"
| "after_call rnd this (DeactivateAccount p) = snd (deactivateAccount this p)"
| "after_call rnd this (ActivateAccount p) = snd (activateAccount this p)"

definition after_calls ::
  "(real \<Rightarrow> double) \<Rightarrow> BankAccount \<Rightarrow> account_call list \<Rightarrow> BankAccount" where
  "after_calls rnd this cs = foldl (after_call rnd) this cs"

text \<open>The account of \<^verbatim>\<open>demonstrateExceptionHandling\<close>: 100.0 on construction.\<close>

definition test_user :: BankAccount where
  "test_user = \<lparr>accountHolder = ''Test User'', accountNumber = ''1111111111'',
                 balance = Finite 100, pin = ''0000'', isActive = True\<rparr>"

section \<open>Calculator::factorial (calculator.cpp)\<close>

text \<open>
  The argument is a C++ \<^verbatim>\<open>int\<close>, modelled by an integer; the loop counter stays below
  \<open>n + 1\<close>, so nothing wraps for \<open>n < 2 ^ 31 - 1\<close>. The \<^verbatim>\<open>double\<close> result is a real number.
  The \<^verbatim>\<open>for\<close> loop, with its counter \<open>i\<close> and the accumulator \<open>result\<close>:
\<close>

function factorial_loop :: "int \<Rightarrow> int \<Rightarrow> real \<Rightarrow> real" where
  "factorial_loop i n result =
     (if i \<le> n then factorial_loop (i + 1) n (result * of_int i) else result)"
  by pat_completeness auto
termination
  by (relation "measure (\<lambda>(i, n, result). nat (n + 1 - i))") auto

definition factorial :: "int \<Rightarrow> exn + real" where
  "factorial n =
     (if n < 0 then Inl (runtime_error ''Factorial of negative number is undefined!'')
      else if n = 0 \<or> n = 1 then Inr 1
      else Inr (factorial_loop 2 n 1))"

section \<open>The coffee decorators (adapter\_decorator.hpp)\<close>

text \<open>
  The classes deriving from \<^verbatim>\<open>Coffee\<close>. A decorator owns the coffee it wraps through a
  \<^verbatim>\<open>unique_ptr\<close>; a chain is therefore a finite tree with one child per node, and a null
  inner pointer (undefined behaviour on the first call) has no counterpart here.
  \<^verbatim>\<open>CoffeeDecorator\<close> overrides all three methods by forwarding and is itself concrete.
\<close>

datatype Coffee =
    SimpleCoffee
  | Espresso
  | CoffeeDecorator Coffee
  | MilkDecorator Coffee
  | SugarDecorator Coffee
  | VanillaDecorator Coffee
  | WhippedCreamDecorator Coffee

fun getDescription :: "Coffee \<Rightarrow> string" where
  "getDescription SimpleCoffee = ''Simple Coffee''"
| "getDescription Espresso = ''Espresso''"
| "getDescription (CoffeeDecorator coffee) = getDescription coffee"
| "getDescription (MilkDecorator coffee) = getDescription coffee @ '' + Milk''"
| "getDescription (SugarDecorator coffee) = getDescription coffee @ '' + Sugar''"
| "getDescription (VanillaDecorator coffee) = getDescription coffee @ '' + Vanilla''"
| "getDescription (WhippedCreamDecorator coffee) = getDescription coffee @ '' + Whipped Cream''"

text \<open>Costs are \<^verbatim>\<open>double\<close>s, here real numbers: 0.5 is \<open>1/2\<close>, 0.2 is \<open>1/5\<close>, 0.7 is \<open>7/10\<close>.\<close>

fun getCost :: "Coffee \<Rightarrow> real" where
  "getCost SimpleCoffee = 2"
| "getCost Espresso = 3"
| "getCost (CoffeeDecorator coffee) = getCost coffee"
| "getCost (MilkDecorator coffee) = getCost coffee + 5 / 10"
| "getCost (SugarDecorator coffee) = getCost coffee + 2 / 10"
| "getCost (VanillaDecorator coffee) = getCost coffee + 7 / 10"
| "getCost (WhippedCreamDecorator coffee) = getCost coffee + 1"

text \<open>
  \<^verbatim>\<open>prepare\<close> writes lines to \<^verbatim>\<open>std::cout\<close>. The stream is the list of the lines written so
  far; each \<^verbatim>\<open><< ... << std::endl\<close> appends one line. The pictographs that open the lines are
  given by their UTF-8 bytes.
\<close>

type_synonym ostream = "string list"

definition brewing_line :: string where
  "brewing_line = [CHR 0xE2, CHR 0x98, CHR 0x95] @ '' Brewing simple black coffee...''"

definition espresso_line :: string where
  "espresso_line = [CHR 0xE2, CHR 0x98, CHR 0x95] @ '' Preparing rich espresso shot...''"

definition milk_line :: string where
  "milk_line = [CHR 0xF0, CHR 0x9F, CHR 0xA5, CHR 0x9B] @ '' Adding creamy steamed milk...''"

definition sugar_line :: string where
  "sugar_line = [CHR 0xF0, CHR 0x9F, CHR 0x8D, CHR 0xAF] @ '' Adding sweet sugar...''"

definition vanilla_line :: string where
  "vanilla_line = [CHR 0xF0, CHR 0x9F, CHR 0x8C, CHR 0x9F] @ '' Adding aromatic vanilla flavor...''"

definition cream_line :: string where
  "cream_line =
     [CHR 0xF0, CHR 0x9F, CHR 0x8D, CHR 0xA6] @ '' Topping with fluffy whipped cream...''"

fun prepare :: "Coffee \<Rightarrow> ostream \<Rightarrow> ostream" where
  "prepare SimpleCoffee out = out @ [brewing_line]"
| "prepare Espresso out = out @ [espresso_line]"
| "prepare (CoffeeDecorator coffee) out = prepare coffee out"
| "prepare (MilkDecorator coffee) out = prepare coffee out @ [milk_line]"
| "prepare (SugarDecorator coffee) out = prepare coffee out @ [sugar_line]"
| "prepare (VanillaDecorator coffee) out = prepare coffee out @ [vanilla_line]"
| "prepare (WhippedCreamDecorator coffee) out = prepare coffee out @ [cream_line]"

text \<open>
  The vocabulary of the decorator contract. A wrapper is one of the five decorator classes;
  \<open>wrap\<close> is its constructor; its own suffix, own cost delta and own effect are what its
  three methods add to the result of the wrapped coffee. \<open>innermost\<close> is the coffee at the
  bottom of a chain and \<open>wrappers\<close> lists the decorators around it, from the inside out.
\<close>

datatype wrapper = Forwarding | Milk | Sugar | Vanilla | WhippedCream

fun wrap :: "wrapper \<Rightarrow> Coffee \<Rightarrow> Coffee" where
  "wrap Forwarding c = CoffeeDecorator c"
| "wrap Milk c = MilkDecorator c"
| "wrap Sugar c = SugarDecorator c"
| "wrap Vanilla c = VanillaDecorator c"
| "wrap WhippedCream c = WhippedCreamDecorator c"

fun suffix :: "wrapper \<Rightarrow> string" where
  "suffix Forwarding = []"
| "suffix Milk = '' + Milk''"
| "suffix Sugar = '' + Sugar''"
| "suffix Vanilla = '' + Vanilla''"
| "suffix WhippedCream = '' + Whipped Cream''"

fun delta :: "wrapper \<Rightarrow> real" where
  "delta Forwarding = 0"
| "delta Milk = 5 / 10"
| "delta Sugar = 2 / 10"
| "delta Vanilla = 7 / 10"
| "delta WhippedCream = 1"

fun effect :: "wrapper \<Rightarrow> string list" where
  "effect Forwarding = []"
| "effect Milk = [milk_line]"
| "effect Sugar = [sugar_line]"
| "effect Vanilla = [vanilla_line]"
| "effect WhippedCream = [cream_line]"

fun innermost :: "Coffee \<Rightarrow> Coffee" where
  "innermost SimpleCoffee = SimpleCoffee"
| "innermost Espresso = Espresso"
| "innermost (CoffeeDecorator c) = innermost c"
| "innermost (MilkDecorator c) = innermost c"
| "innermost (SugarDecorator c) = innermost c"
| "innermost (VanillaDecorator c) = innermost c"
| "innermost (WhippedCreamDecorator c) = innermost c"

fun wrappers :: "Coffee \<Rightarrow> wrapper list" where
  "wrappers SimpleCoffee = []"
| "wrappers Espresso = []"
| "wrappers (CoffeeDecorator c) = wrappers c @ [Forwarding]"
| "wrappers (MilkDecorator c) = wrappers c @ [Milk]"
| "wrappers (SugarDecorator c) = wrappers c @ [Sugar]"
| "wrappers (VanillaDecorator c) = wrappers c @ [Vanilla]"
| "wrappers (WhippedCreamDecorator c) = wrappers c @ [WhippedCream]"

section \<open>The text-processing decorators (adapter\_decorator.hpp)\<close>

text \<open>
  Character classification and case mapping of the C library in the "C" locale, on bytes:
  only the 52 ASCII letters are alphabetic, and \<^verbatim>\<open>toupper\<close> changes the 26 lower-case
  letters only.
\<close>

definition isupper :: "char \<Rightarrow> bool" where
  "isupper c = (65 \<le> (of_char c :: int) \<and> (of_char c :: int) \<le> 90)"

definition islower :: "char \<Rightarrow> bool" where
  "islower c = (97 \<le> (of_char c :: int) \<and> (of_char c :: int) \<le> 122)"

definition isalpha :: "char \<Rightarrow> bool" where
  "isalpha c = (isupper c \<or> islower c)"

definition toupper :: "char \<Rightarrow> char" where
  "toupper c = (if islower c then char_of ((of_char c :: int) - 32) else c)"



datatype TextProcessor =
    PlainTextProcessor
  | TextProcessorDecorator TextProcessor
  | UpperCaseDecorator TextProcessor
  | EncryptionDecorator TextProcessor int
  | CompressionDecorator TextProcessor

text \<open>
  The body of the loop of \<^verbatim>\<open>EncryptionDecorator::process\<close> on one character. The operands
  are promoted to \<^verbatim>\<open>int\<close>; \<^verbatim>\<open>%\<close> truncates towards zero, which is \<open>smod\<close>; the cast back to
  \<^verbatim>\<open>char\<close> keeps the low eight bits, as \<open>char_of\<close> does. The shift is an \<^verbatim>\<open>int\<close>, modelled
  by an integer (the sum does not overflow for shifts of magnitude below \<open>2 ^ 31 - 26\<close>).
\<close>

definition encrypt_char :: "int \<Rightarrow> char \<Rightarrow> char" where
  "encrypt_char shift c =
     (if isalpha c then
        (let base = (if isupper c then CHR ''A'' else CHR ''a'')
         in char_of ((of_char c - of_char base + shift) smod 26 + (of_char base :: int)))
      else c)"

fun encrypt_loop :: "int \<Rightarrow> string \<Rightarrow> string \<Rightarrow> string" where
  "encrypt_loop shift [] encrypted = encrypted"
| "encrypt_loop shift (c # cs) encrypted = encrypt_loop shift cs (encrypted @ [encrypt_char shift c])"

fun compress_loop :: "string \<Rightarrow> string \<Rightarrow> bool \<Rightarrow> string" where
  "compress_loop [] compressed prevSpace = compressed"
| "compress_loop (c # cs) compressed prevSpace =
     (if c = CHR '' '' then
        (if \<not> prevSpace then compress_loop cs (compressed @ [c]) True
         else compress_loop cs compressed prevSpace)
      else compress_loop cs (compressed @ [c]) False)"

fun process :: "TextProcessor \<Rightarrow> string \<Rightarrow> string" where
  "process PlainTextProcessor text = text"
| "process (TextProcessorDecorator processor) text = process processor text"
| "process (UpperCaseDecorator processor) text = map toupper (process processor text)"
| "process (EncryptionDecorator processor shift) text =
     encrypt_loop shift (process processor text) []"
| "process (CompressionDecorator processor) text = compress_loop (process processor text) [] False"



section \<open>The singleton holders (singleton.hpp)\<close>

text \<open>
  Identity of objects is identity of addresses. An object made by \<^verbatim>\<open>new\<close> lives at a heap
  address; the function-local statics of \<^verbatim>\<open>Logger::getInstance\<close> and
  \<^verbatim>\<open>ConfigManager::getInstance\<close> each have their own fixed storage.
\<close>

datatype addr = Heap nat | Logger_static | ConfigManager_static

record DatabaseConnection =
  connection_string :: string

datatype Environment = DEVELOPMENT | TESTING | PRODUCTION

record ConfigManager =
  env :: Environment
  config_path :: string

text \<open>
  The state of one process, as far as the three holders go: the static pointer
  \<^verbatim>\<open>DatabaseConnection::instance\<close> (\<open>None\<close> is \<^verbatim>\<open>nullptr\<close>), the objects that \<^verbatim>\<open>new\<close> has made
  with the next free heap address, whether the static \<^verbatim>\<open>Logger\<close> has been constructed, the
  static \<^verbatim>\<open>ConfigManager\<close> once constructed, and the lines written to \<^verbatim>\<open>std::cout\<close>. Calls run
  one after another; the mutex of \<^verbatim>\<open>DatabaseConnection::getInstance\<close> has no counterpart.
\<close>

record statics =
  DatabaseConnection_instance :: "addr option"
  db_heap :: "nat \<rightharpoonup> DatabaseConnection"
  next_free :: nat
  Logger_constructed :: bool
  ConfigManager_instance :: "ConfigManager option"
  cout :: ostream

definition initial_statics :: statics where
  "initial_statics = \<lparr>DatabaseConnection_instance = None, db_heap = Map.empty, next_free = 0,
     Logger_constructed = False, ConfigManager_instance = None, cout = []\<rparr>"

text \<open>
  \<^verbatim>\<open>new DatabaseConnection(conn_str)\<close>: a fresh object, and the constructor's line of output.
  The default argument \<^verbatim>\<open>"localhost:3306"\<close> of the constructor and of the accessor is a string
  like any other that the caller passes.
\<close>

definition new_DatabaseConnection :: "string \<Rightarrow> statics \<Rightarrow> addr \<times> statics" where
  "new_DatabaseConnection conn_str s =
     (Heap (next_free s),
      s\<lparr>db_heap := (db_heap s)(next_free s \<mapsto> \<lparr>connection_string = conn_str\<rparr>),
        next_free := next_free s + 1,
        cout := cout s @ [''Database connection created to: '' @ conn_str]\<rparr>)"

definition DatabaseConnection_getInstance :: "string \<Rightarrow> statics \<Rightarrow> addr \<times> statics" where
  "DatabaseConnection_getInstance conn_str s =
     (case DatabaseConnection_instance s of
        None \<Rightarrow>
          (let (p, s') = new_DatabaseConnection conn_str s
           in (p, s'\<lparr>DatabaseConnection_instance := Some p\<rparr>))
      | Some p \<Rightarrow> (p, s))"

definition Logger_getInstance :: "statics \<Rightarrow> addr \<times> statics" where
  "Logger_getInstance s = (Logger_static, s\<lparr>Logger_constructed := True\<rparr>)"

definition ConfigManager_getInstance :: "statics \<Rightarrow> addr \<times> statics" where
  "ConfigManager_getInstance s =
     (ConfigManager_static,
      (case ConfigManager_instance s of
         None \<Rightarrow> s\<lparr>ConfigManager_instance :=
                    Some \<lparr>env = DEVELOPMENT, config_path = ''config/dev.json''\<rparr>\<rparr>
       | Some cm \<Rightarrow> s))"

text \<open>
  A run of accessor calls in one process, and what each call returned, tagged with the
  holder it was made on.
\<close>

datatype holder = DatabaseConnection_holder | Logger_holder | ConfigManager_holder

datatype accessor_call = DatabaseConnection_call string | Logger_call | ConfigManager_call

fun holder_of :: "accessor_call \<Rightarrow> holder" where
  "holder_of (DatabaseConnection_call conn_str) = DatabaseConnection_holder"
| "holder_of Logger_call = Logger_holder"
| "holder_of ConfigManager_call = ConfigManager_holder"

fun getInstance :: "accessor_call \<Rightarrow> statics \<Rightarrow> addr \<times> statics" where
  "getInstance (DatabaseConnection_call conn_str) s = DatabaseConnection_getInstance conn_str s"
| "getInstance Logger_call s = Logger_getInstance s"
| "getInstance ConfigManager_call s = ConfigManager_getInstance s"

fun returned :: "accessor_call list \<Rightarrow> statics \<Rightarrow> (holder \<times> addr) list" where
  "returned [] s = []"
| "returned (c # cs) s =
     (let (p, s') = getInstance c s in (holder_of c, p) # returned cs s')"

text \<open>
  The accessor calls of \<^verbatim>\<open>demonstrateSingleton\<close>, and its two calls of
  \<^verbatim>\<open>DatabaseConnection::getInstance\<close> from the start of the process.
\<close>

definition demonstrateSingleton_calls :: "accessor_call list" where
  "demonstrateSingleton_calls =
     [DatabaseConnection_call ''mysql://localhost:3306'',
      DatabaseConnection_call ''postgres://localhost:5432'',
      Logger_call, Logger_call, ConfigManager_call, ConfigManager_call]"

definition demo_db1 :: "addr \<times> statics" where
  "demo_db1 = DatabaseConnection_getInstance ''mysql://localhost:3306'' initial_statics"

definition demo_db2 :: "addr \<times> statics" where
  "demo_db2 = DatabaseConnection_getInstance ''postgres://localhost:5432'' (snd demo_db1)"

section \<open>Properties of BankAccount\<close>

lemma new_BankAccount_test_user:
  "new_BankAccount ''Test User'' ''1111111111'' ''0000'' (Finite 100) = Inr test_user"
  by (simp add: new_BankAccount_def test_user_def)

text \<open>
  C10. \<^verbatim>\<open>changePin\<close> never throws. With a wrong current PIN, or a new PIN whose length is
  not 4, it returns false and leaves the object (so the stored PIN) as it was; it returns
  true exactly when the old PIN matches and the new PIN has length 4, and then the stored
  PIN is the new one and no other field changes.
\<close>

theorem changePin_result:
  "(\<forall>e. fst (changePin this oldPin newPin) \<noteq> Inl e) \<and>
   (pin this \<noteq> oldPin \<or> length newPin \<noteq> 4 \<longrightarrow>
      changePin this oldPin newPin = (Inr False, this)) \<and>
   (fst (changePin this oldPin newPin) = Inr True \<longleftrightarrow> pin this = oldPin \<and> length newPin = 4) \<and>
   (pin this = oldPin \<and> length newPin = 4 \<longrightarrow>
      changePin this oldPin newPin = (Inr True, this\<lparr>pin := newPin\<rparr>))"
  by (simp add: changePin_def validatePin_def)

theorem changePin_result_witness:
  "pin test_user \<noteq> ''9999'' \<and>
   changePin test_user ''9999'' ''1234'' = (Inr False, test_user) \<and>
   length ''12345'' \<noteq> 4 \<and>
   changePin test_user ''0000'' ''12345'' = (Inr False, test_user) \<and>
   pin test_user = ''0000'' \<and> length ''1234'' = 4 \<and>
   changePin test_user ''0000'' ''1234'' = (Inr True, test_user\<lparr>pin := ''1234''\<rparr>)"
  using changePin_result [of test_user "''9999''" "''1234''"]
    changePin_result [of test_user "''0000''" "''12345''"]
    changePin_result [of test_user "''0000''" "''1234''"]
  by (simp add: test_user_def)

text \<open>
  C5. On an active account, \<^verbatim>\<open>getBalance\<close> with a PIN other than the account's throws
  \<^verbatim>\<open>std::runtime_error("Invalid PIN")\<close> and leaves every field of the account as it was.
\<close>

theorem getBalance_wrong_pin:
  "isActive this \<Longrightarrow> inputPin \<noteq> pin this \<Longrightarrow>
   getBalance this inputPin = (Inl (runtime_error ''Invalid PIN''), this)"
  by (auto simp add: getBalance_def isAccountActive_def validatePin_def)

theorem getBalance_wrong_pin_witness:
  "isActive test_user \<and> ''4321'' \<noteq> pin test_user \<and>
   getBalance test_user ''4321'' = (Inl (runtime_error ''Invalid PIN''), test_user)"
  using getBalance_wrong_pin [of test_user "''4321''"]
  by (simp add: test_user_def)

text \<open>
  C1, as stated, fails: on the active account of \<^verbatim>\<open>demonstrateExceptionHandling\<close>, holding
  100, \<^verbatim>\<open>withdraw(1000.0, "0000")\<close> with the correct PIN throws nothing. It returns
  \<^verbatim>\<open>false\<close>. This path computes nothing, so the rounding plays no part in it; the rounding
  that changes nothing, \<open>Finite\<close>, stands for it here.
\<close>

theorem withdraw_insufficient_funds_counterexample:
  "isActive test_user \<and> validatePin test_user ''0000'' \<and>
   double_greater (Finite 1000) (balance test_user) \<and>
   withdraw Finite test_user (Finite 1000) ''0000'' = (Inr False, test_user) \<and>
   \<not> isl (fst (withdraw Finite test_user (Finite 1000) ''0000''))"
  by (simp add: withdraw_def isAccountActive_def validatePin_def test_user_def
      double_greater_def)

text \<open>
  C1, amended. On an active account with a non-negative balance, \<^verbatim>\<open>withdraw\<close> with the
  correct PIN and an amount strictly greater than the balance reports insufficient funds
  through its \<^verbatim>\<open>bool\<close> result: it returns \<^verbatim>\<open>false\<close>, throws nothing and leaves the account
  as it was.
\<close>

theorem withdraw_insufficient_funds:
  "isActive this \<Longrightarrow> validatePin this inputPin \<Longrightarrow> double_less_eq (Finite 0) (balance this) \<Longrightarrow>
   double_greater amount (balance this) \<Longrightarrow>
   withdraw rnd this amount inputPin = (Inr False, this)"
  by (cases amount; cases "balance this")
    (simp_all add: withdraw_def isAccountActive_def double_greater_def)

theorem withdraw_insufficient_funds_witness:
  "isActive test_user \<and> validatePin test_user ''0000'' \<and>
   double_less_eq (Finite 0) (balance test_user) \<and>
   double_greater (Finite 1000) (balance test_user) \<and>
   withdraw Finite test_user (Finite 1000) ''0000'' = (Inr False, test_user)"
  using withdraw_insufficient_funds [of test_user "''0000''" "Finite 1000" Finite]
  by (simp add: test_user_def validatePin_def double_greater_def)

text \<open>
  What the guards do achieve: with a sign-preserving rounding, the comparison
  \<^verbatim>\<open>balance < 0\<close> is false after construction and stays false through every call.
\<close>

lemma new_BankAccount_not_below_zero:
  "new_BankAccount holder accNum userPin initialBalance = Inr this \<Longrightarrow>
   \<not> double_less (balance this) (Finite 0)"
  by (auto simp add: new_BankAccount_def split: if_splits)

lemma deposit_not_below_zero:
  assumes "sign_preserving rnd" and "\<not> double_less (balance this) (Finite 0)"
  shows "\<not> double_less (balance (snd (deposit rnd this amount p))) (Finite 0)"
proof (cases "balance this")
  case (Finite b)
  with assms show ?thesis
    by (cases amount) (auto simp add: deposit_def sign_preserving_def)
next
  case PosInf
  with assms show ?thesis by (cases amount) (auto simp add: deposit_def)
next
  case NegInf
  with assms show ?thesis by simp
next
  case NaN
  with assms show ?thesis by (cases amount) (auto simp add: deposit_def)
qed

lemma withdraw_not_below_zero:
  assumes "sign_preserving rnd" and "\<not> double_less (balance this) (Finite 0)"
  shows "\<not> double_less (balance (snd (withdraw rnd this amount p))) (Finite 0)"
proof (cases "balance this")
  case (Finite b)
  with assms show ?thesis
    by (cases amount)
      (auto simp add: withdraw_def double_sub_def double_greater_def sign_preserving_def)
next
  case PosInf
  with assms show ?thesis
    by (cases amount) (auto simp add: withdraw_def double_sub_def double_greater_def)
next
  case NegInf
  with assms show ?thesis by simp
next
  case NaN
  with assms show ?thesis
    by (cases amount) (auto simp add: withdraw_def double_sub_def double_greater_def)
qed

lemma after_call_not_below_zero:
  assumes "sign_preserving rnd" and "\<not> double_less (balance this) (Finite 0)"
  shows "\<not> double_less (balance (after_call rnd this c)) (Finite 0)"
proof (cases c)
  case (Deposit amount p)
  with assms show ?thesis using deposit_not_below_zero by simp
next
  case (Withdraw amount p)
  with assms show ?thesis using withdraw_not_below_zero by simp
qed (use assms in \<open>simp_all add: getBalance_def changePin_def deactivateAccount_def
      activateAccount_def\<close>)

lemma after_calls_not_below_zero:
  "sign_preserving rnd \<Longrightarrow> \<not> double_less (balance this) (Finite 0) \<Longrightarrow>
   \<not> double_less (balance (after_calls rnd this cs)) (Finite 0)"
  unfolding after_calls_def
  by (induction cs arbitrary: this) (simp_all add: after_call_not_below_zero)

lemma sign_preserving_Finite: "sign_preserving Finite"
  by (simp add: sign_preserving_def)

text \<open>
  C6 fails on the code. The guards of the constructor, of \<^verbatim>\<open>deposit\<close> and of \<^verbatim>\<open>withdraw\<close>
  are comparisons, and every comparison with NaN is false: the constructor accepts a NaN
  initial balance; \<^verbatim>\<open>deposit\<close> accepts the amount NaN, although its message asks for a
  positive amount, and leaves the balance NaN; on the account holding 100, depositing
  infinity and then withdrawing infinity passes every guard and leaves the balance NaN.
  For a NaN balance \<^verbatim>\<open>0 <= balance\<close> is false, and any positive withdrawal is then granted.
  This holds whatever the rounding is.
\<close>

theorem balance_guards_miss_nan:
  "new_BankAccount ''Test User'' ''1111111111'' ''0000'' NaN = Inr (test_user\<lparr>balance := NaN\<rparr>) \<and>
   deposit rnd test_user NaN ''0000'' = (Inr (), test_user\<lparr>balance := NaN\<rparr>) \<and>
   deposit rnd test_user PosInf ''0000'' = (Inr (), test_user\<lparr>balance := PosInf\<rparr>) \<and>
   withdraw rnd (test_user\<lparr>balance := PosInf\<rparr>) PosInf ''0000'' =
     (Inr True, test_user\<lparr>balance := NaN\<rparr>) \<and>
   balance (after_calls rnd test_user [Deposit PosInf ''0000'', Withdraw PosInf ''0000'']) = NaN \<and>
   \<not> double_less_eq (Finite 0) NaN \<and>
   withdraw rnd (test_user\<lparr>balance := NaN\<rparr>) (Finite 1000000) ''0000'' =
     (Inr True, test_user\<lparr>balance := NaN\<rparr>)"
  by (simp add: new_BankAccount_def deposit_def withdraw_def after_calls_def
      isAccountActive_def validatePin_def test_user_def double_greater_def double_sub_def)

section \<open>Properties of Calculator::factorial\<close>

text \<open>
  C7. \<^verbatim>\<open>Calculator::factorial\<close> returns 1 for 0 and 120 for 5; for -1, and for every other
  negative argument, it throws (a \<^verbatim>\<open>std::runtime_error\<close>) and returns no value.
\<close>

theorem factorial_values:
  "factorial 0 = Inr 1 \<and> factorial 5 = Inr 120 \<and>
   factorial (- 1) = Inl (runtime_error ''Factorial of negative number is undefined!'') \<and>
   (\<forall>n<0. factorial n = Inl (runtime_error ''Factorial of negative number is undefined!''))"
  by (simp add: factorial_def)

theorem factorial_values_witness:
  "(- 7 :: int) < 0 \<and>
   factorial (- 7) = Inl (runtime_error ''Factorial of negative number is undefined!'')"
  using factorial_values by simp

section \<open>Properties of the coffee decorators\<close>

text \<open>
  C2. For every base coffee \<open>b\<close> and decorators \<open>A\<close> and \<open>B\<close>, the chain that wraps \<open>b\<close> by
  \<open>A\<close> and then by \<open>B\<close> describes itself as \<open>b\<close>'s description followed by the suffix of
  \<open>A\<close> and then that of \<open>B\<close>, and costs \<open>b\<close>'s cost plus the delta of \<open>A\<close> plus that of \<open>B\<close>
  (added in this order, as the nested calls do).
\<close>

theorem decorator_chain_describe_cost:
  "getDescription (wrap B (wrap A b)) = getDescription b @ suffix A @ suffix B \<and>
   getCost (wrap B (wrap A b)) = getCost b + delta A + delta B"
  by (cases A; cases B; simp)

text \<open>One wrapper appends its own effect to what the wrapped coffee wrote.\<close>

lemma prepare_wrap: "prepare (wrap w c) out = prepare c out @ effect w"
  by (cases w) simp_all

lemma prepare_chain:
  "prepare c out = out @ prepare (innermost c) [] @ concat (map effect (wrappers c))"
  by (induction c arbitrary: out) simp_all

lemma prepare_innermost_nonempty: "prepare (innermost c) [] \<noteq> []"
  by (induction c) simp_all

lemma chain_rebuild: "foldl (\<lambda>c w. wrap w c) (innermost c) (wrappers c) = c"
  by (induction c) simp_all

lemma prepare_luxury_coffee:
  "prepare (WhippedCreamDecorator (VanillaDecorator (SugarDecorator (MilkDecorator SimpleCoffee))))
     [] = [brewing_line, milk_line, sugar_line, vanilla_line, cream_line]"
  by simp

text \<open>
  C4. \<^verbatim>\<open>prepare\<close> runs the effects of a chain from the inside out: a wrapper first has the
  wrapped coffee write its lines and then writes its own; so what any chain writes is what
  its innermost coffee writes, followed by the effects of the decorators from the innermost
  to the outermost, and the first line written is the innermost coffee's.
\<close>

theorem prepare_inner_to_outer:
  "prepare (wrap w c) out = prepare c out @ effect w \<and>
   prepare c out = out @ prepare (innermost c) [] @ concat (map effect (wrappers c)) \<and>
   prepare (innermost c) [] \<noteq> [] \<and>
   hd (prepare c []) = hd (prepare (innermost c) [])"
  using prepare_wrap prepare_chain [of c "[]"] prepare_chain [of c out]
    prepare_innermost_nonempty [of c]
  by simp

section \<open>Properties of the text-processing decorators\<close>





text \<open>
  With a negative shift the remainder that \<^verbatim>\<open>%\<close> delivers can be negative, and the character
  computed is then below the base letter and no letter at all.
\<close>

lemma negative_shift_outputs:
  "process (UpperCaseDecorator (EncryptionDecorator PlainTextProcessor (- 1))) ''a'' = [CHR 0x60]"
  "process (EncryptionDecorator (UpperCaseDecorator PlainTextProcessor) (- 1)) ''a'' = ''@''"
  by code_simp+






section \<open>Properties of the singleton holders\<close>

text \<open>Once the static pointer is set, no accessor call changes it.\<close>

lemma getInstance_keeps_pointer:
  "DatabaseConnection_instance s = Some p0 \<Longrightarrow>
   DatabaseConnection_instance (snd (getInstance c s)) = Some p0"
  by (cases c)
    (simp_all add: DatabaseConnection_getInstance_def Logger_getInstance_def
      ConfigManager_getInstance_def split: option.splits)

lemma getInstance_sets_pointer:
  "getInstance (DatabaseConnection_call conn_str) s = (q, s') \<Longrightarrow>
   DatabaseConnection_instance s' = Some q"
  by (auto simp add: DatabaseConnection_getInstance_def new_DatabaseConnection_def
      split: option.splits)

lemma returned_DatabaseConnection_set:
  "DatabaseConnection_instance s = Some p0 \<Longrightarrow>
   (DatabaseConnection_holder, p) \<in> set (returned cs s) \<Longrightarrow> p = p0"
proof (induction cs arbitrary: s)
  case Nil
  then show ?case by simp
next
  case (Cons c cs)
  obtain q s' where call: "getInstance c s = (q, s')" by (cases "getInstance c s")
  from Cons.prems(1) have inst: "DatabaseConnection_instance s' = Some p0"
    using getInstance_keeps_pointer [of s p0 c] call by simp
  from Cons.prems(2) call
  consider (head) "holder_of c = DatabaseConnection_holder" "p = q"
    | (tail) "(DatabaseConnection_holder, p) \<in> set (returned cs s')"
    by auto
  then show ?case
  proof cases
    case head
    then obtain conn_str where "c = DatabaseConnection_call conn_str"
      by (cases c) simp_all
    with call Cons.prems(1) head show ?thesis
      by (simp add: DatabaseConnection_getInstance_def)
  next
    case tail
    with inst show ?thesis by (rule Cons.IH)
  qed
qed

lemma returned_DatabaseConnection_unique:
  "\<exists>p0. \<forall>p. (DatabaseConnection_holder, p) \<in> set (returned cs s) \<longrightarrow> p = p0"
proof (induction cs arbitrary: s)
  case Nil
  then show ?case by simp
next
  case (Cons c cs)
  obtain q s' where call: "getInstance c s = (q, s')" by (cases "getInstance c s")
  show ?case
  proof (cases "holder_of c = DatabaseConnection_holder")
    case True
    then obtain conn_str where c: "c = DatabaseConnection_call conn_str"
      by (cases c) simp_all
    with call have "DatabaseConnection_instance s' = Some q"
      using getInstance_sets_pointer by simp
    then have "\<forall>p. (DatabaseConnection_holder, p) \<in> set (returned cs s') \<longrightarrow> p = q"
      using returned_DatabaseConnection_set by blast
    with call show ?thesis by auto
  next
    case False
    from Cons.IH [of s'] obtain p0
      where "\<forall>p. (DatabaseConnection_holder, p) \<in> set (returned cs s') \<longrightarrow> p = p0" ..
    with call False show ?thesis by auto
  qed
qed

lemma returned_Logger: "(Logger_holder, p) \<in> set (returned cs s) \<Longrightarrow> p = Logger_static"
proof (induction cs arbitrary: s)
  case Nil
  then show ?case by simp
next
  case (Cons c cs)
  then show ?case
    by (cases c) (auto simp add: Logger_getInstance_def split: prod.splits)
qed

lemma returned_ConfigManager:
  "(ConfigManager_holder, p) \<in> set (returned cs s) \<Longrightarrow> p = ConfigManager_static"
proof (induction cs arbitrary: s)
  case Nil
  then show ?case by simp
next
  case (Cons c cs)
  then show ?case
    by (cases c) (auto simp add: ConfigManager_getInstance_def split: prod.splits)
qed

lemma returned_same_holder:
  assumes "(h, p) \<in> set (returned cs s)" and "(h, q) \<in> set (returned cs s)"
  shows "p = q"
proof (cases h)
  case DatabaseConnection_holder
  with assms returned_DatabaseConnection_unique [of cs s] show ?thesis by auto
next
  case Logger_holder
  with assms show ?thesis using returned_Logger by blast
next
  case ConfigManager_holder
  with assms show ?thesis using returned_ConfigManager by blast
qed

lemma length_returned: "length (returned cs s) = length cs"
  by (induction cs arbitrary: s) (simp_all split: prod.splits)

lemma returned_nth_holder: "i < length cs \<Longrightarrow> fst (returned cs s ! i) = holder_of (cs ! i)"
proof (induction cs arbitrary: s i)
  case Nil
  then show ?case by simp
next
  case (Cons c cs)
  then show ?case by (cases i) (simp_all split: prod.splits)
qed

lemma returned_demonstrateSingleton:
  "returned demonstrateSingleton_calls initial_statics =
     [(DatabaseConnection_holder, Heap 0), (DatabaseConnection_holder, Heap 0),
      (Logger_holder, Logger_static), (Logger_holder, Logger_static),
      (ConfigManager_holder, ConfigManager_static), (ConfigManager_holder, ConfigManager_static)]"
  by (simp add: demonstrateSingleton_calls_def initial_statics_def
      DatabaseConnection_getInstance_def new_DatabaseConnection_def Logger_getInstance_def
      ConfigManager_getInstance_def)

text \<open>
  C8. In one process, whatever its state and whatever accessor calls are made, any two calls
  of \<^verbatim>\<open>getInstance\<close> on the same holder (\<^verbatim>\<open>DatabaseConnection\<close>, \<^verbatim>\<open>Logger\<close> or
  \<^verbatim>\<open>ConfigManager\<close>) return the same address, that is, the identical object.
\<close>

theorem singleton_identity:
  assumes "i < length cs" and "j < length cs" and "holder_of (cs ! i) = holder_of (cs ! j)"
  shows "snd (returned cs s ! i) = snd (returned cs s ! j)"
proof -
  let ?r = "returned cs s"
  from assms(1) have "?r ! i \<in> set ?r" by (simp add: length_returned)
  then have i: "(holder_of (cs ! i), snd (?r ! i)) \<in> set ?r"
    using returned_nth_holder [OF assms(1), of s] by (metis prod.collapse)
  from assms(2) have "?r ! j \<in> set ?r" by (simp add: length_returned)
  then have j: "(holder_of (cs ! i), snd (?r ! j)) \<in> set ?r"
    using returned_nth_holder [OF assms(2), of s] assms(3) by (metis prod.collapse)
  from i j show ?thesis by (rule returned_same_holder)
qed

theorem singleton_identity_witness:
  "0 < length demonstrateSingleton_calls \<and> 1 < length demonstrateSingleton_calls \<and>
   holder_of (demonstrateSingleton_calls ! 0) = holder_of (demonstrateSingleton_calls ! 1) \<and>
   snd (returned demonstrateSingleton_calls initial_statics ! 0) =
   snd (returned demonstrateSingleton_calls initial_statics ! 1)"
  using singleton_identity [of 0 demonstrateSingleton_calls 1 initial_statics]
  by (simp add: demonstrateSingleton_calls_def)

text \<open>
  C9. After the first call, \<^verbatim>\<open>DatabaseConnection::getInstance\<close> ignores its argument. When the
  static pointer is still null, the first call makes one object holding the first string and
  writes one line; a second call, with any string, returns the same address and leaves the
  whole state as the first call left it: the heap holds, beyond what it held before, just the
  object with the first string, and nothing more is written.
\<close>

theorem later_connection_string_ignored:
  "DatabaseConnection_instance s = None \<Longrightarrow>
   DatabaseConnection_getInstance c1 s = (p1, s1) \<Longrightarrow>
   DatabaseConnection_getInstance c2 s1 = (p2, s2) \<Longrightarrow>
   p2 = p1 \<and> s2 = s1 \<and> p1 = Heap (next_free s) \<and>
   db_heap s2 = (db_heap s)(next_free s \<mapsto> \<lparr>connection_string = c1\<rparr>) \<and>
   cout s2 = cout s @ [''Database connection created to: '' @ c1]"
  by (auto simp add: DatabaseConnection_getInstance_def new_DatabaseConnection_def)

theorem later_connection_string_ignored_witness:
  "DatabaseConnection_instance initial_statics = None \<and>
   fst demo_db2 = fst demo_db1 \<and> snd demo_db2 = snd demo_db1 \<and> fst demo_db1 = Heap 0 \<and>
   db_heap (snd demo_db2) = [0 \<mapsto> \<lparr>connection_string = ''mysql://localhost:3306''\<rparr>] \<and>
   cout (snd demo_db2) = [''Database connection created to: mysql://localhost:3306'']"
  using later_connection_string_ignored [of initial_statics "''mysql://localhost:3306''"
      "fst demo_db1" "snd demo_db1" "''postgres://localhost:5432''" "fst demo_db2" "snd demo_db2"]
  by (simp add: demo_db1_def demo_db2_def initial_statics_def
      DatabaseConnection_getInstance_def new_DatabaseConnection_def)

end
